theory Spec2Isabelle
  imports Main
begin

section \<open>JavaScript strings and arrays\<close>

text \<open>
  The two scripts of the repository (the ingestion script \<^verbatim>\<open>install.ts\<close> and the query
  script) are glue around the file system, a text splitter, an embedding service, a vector
  database and a language model. The glue is embedded here function by function; the
  third-party calls are parameters of the model (record \<open>services\<close> below), so that every
  theorem holds for whatever those libraries do.
\<close>

definition nl :: char where
  "nl = CHR 0x0A"

text \<open>\<^verbatim>\<open>Array.prototype.join(sep)\<close> on an array of strings.\<close>

fun js_join :: "string \<Rightarrow> string list \<Rightarrow> string" where
  "js_join sep [] = []"
| "js_join sep [x] = x"
| "js_join sep (x # y # ys) = x @ sep @ js_join sep (y # ys)"

text \<open>\<^verbatim>\<open>String.prototype.endsWith(suffix)\<close>.\<close>

definition endsWith :: "string \<Rightarrow> string \<Rightarrow> bool" where
  "endsWith suffix s =
     (length suffix \<le> length s \<and> drop (length s - length suffix) s = suffix)"

text \<open>A non-negative integer inside a template literal: its decimal digits.\<close>

fun show_nat :: "nat \<Rightarrow> string" where
  "show_nat n =
     (if n < 10 then [''0123456789'' ! n]
      else show_nat (n div 10) @ [''0123456789'' ! (n mod 10)])"

declare show_nat.simps [simp del]

section \<open>Data\<close>

text \<open>
  A LangChain \<^verbatim>\<open>Document\<close>: the text and a metadata object. The metadata object is an
  association list in insertion order; the values this program stores are strings.
\<close>

type_synonym metadata = "(string \<times> string) list"

record document =
  pageContent :: string
  metadata :: metadata

text \<open>
  Reading a property of a metadata object inside a template literal: a missing property
  is \<^verbatim>\<open>undefined\<close> and prints as the word.
\<close>

definition template_prop :: "metadata \<Rightarrow> string \<Rightarrow> string" where
  "template_prop m k = (case map_of m k of None \<Rightarrow> ''undefined'' | Some v \<Rightarrow> v)"

text \<open>
  Exceptions are values. The program defines no error class of its own: what it can see
  is an exception of the file system or one thrown by a third-party call.
\<close>

datatype error = FsError string | ServiceError string

fun error_text :: "error \<Rightarrow> string" where
  "error_text (FsError p) = ''FsError: '' @ p"
| "error_text (ServiceError m) = ''ServiceError: '' @ m"

text \<open>An entry of the collection in the vector database.\<close>

record 'v entry =
  entry_id :: string
  embedding :: 'v
  entry_text :: string
  entry_metadata :: metadata

text \<open>
  The state the scripts act on: the one collection they name, the console, and the hidden
  state of the outside world (network, model sampling) that the third-party calls may read
  and change.
\<close>

record ('v, 'x) world =
  collection :: "'v entry list"
  console :: "string list"
  ext :: 'x

definition console_log :: "string \<Rightarrow> ('v, 'x) world \<Rightarrow> ('v, 'x) world" where
  "console_log line w = w\<lparr>console := console w @ [line]\<rparr>"

definition console_error :: "string \<Rightarrow> error \<Rightarrow> ('v, 'x) world \<Rightarrow> ('v, 'x) world" where
  "console_error msg e w = w\<lparr>console := console w @ [msg @ '' '' @ error_text e]\<rparr>"

text \<open>
  The third-party calls, as the scripts use them:
  \<^item> \<open>splitDocuments size overlap docs\<close>: \<^verbatim>\<open>MarkdownTextSplitter.splitDocuments\<close>;
  \<^item> \<open>fromDocuments docs\<close>: \<^verbatim>\<open>Chroma.fromDocuments\<close>, which embeds and writes: it may
    change the collection, also when it throws;
  \<^item> \<open>fromExistingCollection\<close>: \<^verbatim>\<open>Chroma.fromExistingCollection\<close>, which opens a handle;
  \<^item> \<open>retrieverInvoke k q\<close>: \<^verbatim>\<open>asRetriever({k}).invoke(q)\<close>, which embeds the question
    and searches the collection;
  \<^item> \<open>ollamaInvoke prompt\<close>: the language model.
  Opening a handle and searching are given the collection and return no new one: what
  those two calls do to the database is outside this model.
\<close>

record ('v, 'x) services =
  splitDocuments :: "nat \<Rightarrow> nat \<Rightarrow> document list \<Rightarrow> error + document list"
  fromDocuments :: "document list \<Rightarrow> 'v entry list \<Rightarrow> 'x \<Rightarrow> error option \<times> 'v entry list \<times> 'x"
  fromExistingCollection :: "'v entry list \<Rightarrow> 'x \<Rightarrow> error option \<times> 'x"
  retrieverInvoke :: "nat \<Rightarrow> string \<Rightarrow> 'v entry list \<Rightarrow> 'x \<Rightarrow> (error + document list) \<times> 'x"
  ollamaInvoke :: "string \<Rightarrow> 'x \<Rightarrow> (error + string) \<times> 'x"

section \<open>Configuration\<close>

definition MARKDOWN_DIR :: string where
  "MARKDOWN_DIR = ''./book''"

definition CHUNK_SIZE :: nat where
  "CHUNK_SIZE = 1000"

definition CHUNK_OVERLAP :: nat where
  "CHUNK_OVERLAP = 200"

definition RETRIEVER_K :: nat where
  "RETRIEVER_K = 5"

section \<open>The query pipeline: \<^verbatim>\<open>createRagPipeline\<close>\<close>

text \<open>
  The two slots the first step of the chain hands to the prompt template: the properties
  \<^verbatim>\<open>context\<close> and \<^verbatim>\<open>question\<close> of the object it builds.
\<close>

record prompt_slots =
  context_slot :: string
  question_slot :: string

text \<open>
  \<^verbatim>\<open>docs.map(doc => `Source: ${doc.metadata.source}\n${doc.pageContent}`)\<close>, one element.
\<close>

definition formattedDoc :: "document \<Rightarrow> string" where
  "formattedDoc doc =
     ''Source: '' @ template_prop (metadata doc) ''source'' @ [nl] @ pageContent doc"

text \<open>\<^verbatim>\<open>formattedDocs.join('\n\n')\<close>.\<close>

definition formatDocs :: "document list \<Rightarrow> string" where
  "formatDocs docs = js_join [nl, nl] (map formattedDoc docs)"

text \<open>
  The \<^verbatim>\<open>context\<close> function of the chain's first step: log, retrieve, log, format. An
  exception of the retriever leaves the function at once.
\<close>

definition context_fn ::
  "('v, 'x) services \<Rightarrow> string \<Rightarrow> ('v, 'x) world \<Rightarrow> (error + string) \<times> ('v, 'x) world" where
  "context_fn sv q w =
     (let w1 = console_log (''Retrieving documents for question: '' @ q) w in
      case retrieverInvoke sv RETRIEVER_K q (collection w1) (ext w1) of
        (Inl e, x) \<Rightarrow> (Inl e, w1\<lparr>ext := x\<rparr>)
      | (Inr docs, x) \<Rightarrow>
          (let w2 = console_log (''Retrieved '' @ show_nat (length docs) @ '' documents'')
                      (w1\<lparr>ext := x\<rparr>)
           in (Inr (formatDocs docs), w2)))"

text \<open>The first step of the chain: the object \<^verbatim>\<open>{context: ..., question: ...}\<close>.\<close>

definition chain_slots ::
  "('v, 'x) services \<Rightarrow> string \<Rightarrow> ('v, 'x) world \<Rightarrow> (error + prompt_slots) \<times> ('v, 'x) world" where
  "chain_slots sv q w =
     (case context_fn sv q w of
        (Inl e, w') \<Rightarrow> (Inl e, w')
      | (Inr c, w') \<Rightarrow> (Inr \<lparr>context_slot = c, question_slot = q\<rparr>, w'))"

text \<open>
  The prompt template of the source, with its two slots filled. The template text starts
  with a line break and indents every line by six spaces.
\<close>

definition promptTemplate :: "prompt_slots \<Rightarrow> string" where
  "promptTemplate s =
     [nl] @ ''      Answer the question based on the following context:'' @ [nl] @
     ''      '' @ [nl] @
     ''      Context: '' @ context_slot s @ [nl] @
     ''      '' @ [nl] @
     ''      Question: '' @ question_slot s @ [nl] @
     ''      '' @ [nl] @
     ''      Answer:'' @ [nl] @
     ''    ''"

text \<open>
  Invoking the chain: slots, prompt, language model, output parser (the identity on the
  model's string).
\<close>

definition ragChain_invoke ::
  "('v, 'x) services \<Rightarrow> string \<Rightarrow> ('v, 'x) world \<Rightarrow> (error + string) \<times> ('v, 'x) world" where
  "ragChain_invoke sv q w =
     (case chain_slots sv q w of
        (Inl e, w') \<Rightarrow> (Inl e, w')
      | (Inr s, w') \<Rightarrow>
          (case ollamaInvoke sv (promptTemplate s) (ext w') of
             (Inl e, x) \<Rightarrow> (Inl e, w'\<lparr>ext := x\<rparr>)
           | (Inr answer, x) \<Rightarrow> (Inr answer, w'\<lparr>ext := x\<rparr>)))"

definition createRagPipeline :: "('v, 'x) world \<Rightarrow> ('v, 'x) world" where
  "createRagPipeline w = console_log ''Creating RAG pipeline...'' w"

section \<open>The query script\<close>

definition getDataVectorStor ::
  "('v, 'x) services \<Rightarrow> ('v, 'x) world \<Rightarrow> (error + unit) \<times> ('v, 'x) world" where
  "getDataVectorStor sv w =
     (case fromExistingCollection sv (collection w) (ext w) of
        (Some e, x) \<Rightarrow> (Inl e, w\<lparr>ext := x\<rparr>)
      | (None, x) \<Rightarrow> (Inr (), w\<lparr>ext := x\<rparr>))"

text \<open>\<^verbatim>\<open>setupRag\<close> of the query script: the \<^verbatim>\<open>catch\<close> logs and throws the error again.\<close>

definition setupRag_app ::
  "('v, 'x) services \<Rightarrow> ('v, 'x) world \<Rightarrow> (error + unit) \<times> ('v, 'x) world" where
  "setupRag_app sv w =
     (case getDataVectorStor sv w of
        (Inl e, w1) \<Rightarrow> (Inl e, console_error ''Error setting up RAG system:'' e w1)
      | (Inr _, w1) \<Rightarrow>
          (Inr (), console_log ''RAG system is ready to use!'' (createRagPipeline w1)))"

definition queryRag ::
  "('v, 'x) services \<Rightarrow> string \<Rightarrow> ('v, 'x) world \<Rightarrow> (error + string) \<times> ('v, 'x) world" where
  "queryRag sv q w =
     (case ragChain_invoke sv q (console_log (''Question: '' @ q) w) of
        (Inl e, w') \<Rightarrow> (Inl e, w')
      | (Inr response, w') \<Rightarrow> (Inr response, console_log (''Answer: '' @ response) w'))"

text \<open>
  Awaited calls of \<^verbatim>\<open>queryRag\<close> in a row, as \<^verbatim>\<open>main\<close> makes them: the first exception
  ends the run.
\<close>

fun queryRag_all ::
  "('v, 'x) services \<Rightarrow> string list \<Rightarrow> ('v, 'x) world \<Rightarrow> (error + string list) \<times> ('v, 'x) world" where
  "queryRag_all sv [] w = (Inr [], w)"
| "queryRag_all sv (q # qs) w =
     (case queryRag sv q w of
        (Inl e, w') \<Rightarrow> (Inl e, w')
      | (Inr r, w') \<Rightarrow>
          (case queryRag_all sv qs w' of
             (Inl e, w'') \<Rightarrow> (Inl e, w'')
           | (Inr rs, w'') \<Rightarrow> (Inr (r # rs), w'')))"

definition main_app ::
  "('v, 'x) services \<Rightarrow> ('v, 'x) world \<Rightarrow> (error + string list) \<times> ('v, 'x) world" where
  "main_app sv w =
     (case setupRag_app sv w of
        (Inl e, w') \<Rightarrow> (Inl e, w')
      | (Inr _, w') \<Rightarrow>
          queryRag_all sv
            [''Who is the main character ?'', ''Who is the anti-protagonist ?'',
             ''Which places did Alice visit?'', ''What is the cat name ?''] w')"

text \<open>\<^verbatim>\<open>main().catch(console.error)\<close>: the script as a whole.\<close>

definition run_app :: "('v, 'x) services \<Rightarrow> ('v, 'x) world \<Rightarrow> ('v, 'x) world" where
  "run_app sv w =
     (case main_app sv w of
        (Inl e, w') \<Rightarrow> console_log (error_text e) w'
      | (Inr _, w') \<Rightarrow> w')"

section \<open>Node's POSIX \<^verbatim>\<open>path\<close> module\<close>

text \<open>The segments of a path between its slashes, as \<^verbatim>\<open>split('/')\<close> gives them.\<close>

fun split_slash :: "string \<Rightarrow> string list" where
  "split_slash [] = [[]]"
| "split_slash (c # cs) =
     (if c = CHR ''/'' then [] # split_slash cs
      else (case split_slash cs of [] \<Rightarrow> [[c]] | s # ss \<Rightarrow> (c # s) # ss))"

text \<open>
  \<^verbatim>\<open>normalizeString\<close>: empty segments and \<^verbatim>\<open>.\<close> are dropped, \<^verbatim>\<open>..\<close> removes the segment
  before it; where there is none (or it is \<^verbatim>\<open>..\<close> itself) a relative path keeps the \<^verbatim>\<open>..\<close>
  and an absolute path drops it. The accumulator holds the kept segments, last first.
\<close>

fun normalize_segments :: "bool \<Rightarrow> string list \<Rightarrow> string list \<Rightarrow> string list" where
  "normalize_segments allowAboveRoot acc [] = rev acc"
| "normalize_segments allowAboveRoot acc (s # ss) =
     (if s = [] \<or> s = ''.'' then normalize_segments allowAboveRoot acc ss
      else if s = ''..'' then
        (case acc of
           [] \<Rightarrow> normalize_segments allowAboveRoot (if allowAboveRoot then [''..''] else []) ss
         | t # ts \<Rightarrow>
             if t = ''..''
             then normalize_segments allowAboveRoot (if allowAboveRoot then ''..'' # acc else acc) ss
             else normalize_segments allowAboveRoot ts ss)
      else normalize_segments allowAboveRoot (s # acc) ss)"

definition path_normalize :: "string \<Rightarrow> string" where
  "path_normalize p =
     (if p = [] then ''.''
      else
        (let isAbsolute = (hd p = CHR ''/'');
             trailingSeparator = (last p = CHR ''/'');
             r = js_join ''/'' (normalize_segments (\<not> isAbsolute) [] (split_slash p))
         in if r = [] then (if isAbsolute then ''/'' else if trailingSeparator then ''./'' else ''.'')
            else (if isAbsolute then ''/'' else []) @ r @ (if trailingSeparator then ''/'' else [])))"

text \<open>\<^verbatim>\<open>path.join(a, b)\<close>: the non-empty arguments joined by a slash, then normalised.\<close>

definition path_join :: "string \<Rightarrow> string \<Rightarrow> string" where
  "path_join a b =
     (if a = [] \<and> b = [] then ''.''
      else if a = [] then path_normalize b
      else if b = [] then path_normalize a
      else path_normalize (a @ ''/'' @ b))"

text \<open>
  \<^verbatim>\<open>path.basename(p)\<close>: what follows the last slash, trailing slashes not counted.
\<close>

definition path_basename :: "string \<Rightarrow> string" where
  "path_basename p =
     rev (takeWhile (\<lambda>c. c \<noteq> CHR ''/'') (dropWhile (\<lambda>c. c = CHR ''/'') (rev p)))"

section \<open>The ingestion script\<close>

text \<open>
  The file system as the script reads it: \<open>readdirSync d\<close> is the list of entry names of
  directory \<open>d\<close>, \<open>readFileSync p\<close> the text of file \<open>p\<close>; \<open>None\<close> where Node throws
  (no such directory, a directory where a file is expected, no permission).
\<close>

record filesystem =
  readdirSync :: "string \<Rightarrow> string list option"
  readFileSync :: "string \<Rightarrow> string option"

text \<open>The loop over the files: read, take the base name, push a document.\<close>

fun read_files :: "filesystem \<Rightarrow> string list \<Rightarrow> error + document list" where
  "read_files fs [] = Inr []"
| "read_files fs (file # files) =
     (case readFileSync fs file of
        None \<Rightarrow> Inl (FsError file)
      | Some content \<Rightarrow>
          (case read_files fs files of
             Inl e \<Rightarrow> Inl e
           | Inr documents \<Rightarrow>
               Inr (\<lparr>pageContent = content,
                     metadata = [(''source'', path_basename file), (''filePath'', file)]\<rparr>
                    # documents)))"

text \<open>The first half of \<^verbatim>\<open>processMarkdownFiles\<close>: list, filter, join, load.\<close>

definition loadDocuments :: "filesystem \<Rightarrow> error + document list" where
  "loadDocuments fs =
     (case readdirSync fs MARKDOWN_DIR of
        None \<Rightarrow> Inl (FsError MARKDOWN_DIR)
      | Some names \<Rightarrow>
          read_files fs (map (path_join MARKDOWN_DIR) (filter (endsWith ''.md'') names)))"

definition processMarkdownFiles ::
  "('v, 'x) services \<Rightarrow> filesystem \<Rightarrow> ('v, 'x) world \<Rightarrow>
     (error + document list) \<times> ('v, 'x) world" where
  "processMarkdownFiles sv fs w =
     (let w1 = console_log ''Processing markdown files...'' w in
      case loadDocuments fs of
        Inl e \<Rightarrow> (Inl e, w1)
      | Inr documents \<Rightarrow>
          (case splitDocuments sv CHUNK_SIZE CHUNK_OVERLAP documents of
             Inl e \<Rightarrow> (Inl e, w1)
           | Inr splitDocs \<Rightarrow>
               (Inr splitDocs,
                console_log (''Split '' @ show_nat (length documents) @ '' documents into ''
                             @ show_nat (length splitDocs) @ '' chunks'') w1)))"

definition createVectorStore ::
  "('v, 'x) services \<Rightarrow> document list \<Rightarrow> ('v, 'x) world \<Rightarrow> (error + unit) \<times> ('v, 'x) world" where
  "createVectorStore sv documents w =
     (let w1 = console_log ''Creating vector store...'' w in
      case fromDocuments sv documents (collection w1) (ext w1) of
        (Some e, c, x) \<Rightarrow> (Inl e, w1\<lparr>collection := c, ext := x\<rparr>)
      | (None, c, x) \<Rightarrow>
          (Inr (), console_log ''Vector store created successfully!''
                     (w1\<lparr>collection := c, ext := x\<rparr>)))"

text \<open>
  \<^verbatim>\<open>setupRag\<close> of the ingestion script: load and split, write, build the chain; the
  \<^verbatim>\<open>catch\<close> logs and throws the error again.
\<close>

definition setupRag_install ::
  "('v, 'x) services \<Rightarrow> filesystem \<Rightarrow> ('v, 'x) world \<Rightarrow> (error + unit) \<times> ('v, 'x) world" where
  "setupRag_install sv fs w =
     (case processMarkdownFiles sv fs w of
        (Inl e, w1) \<Rightarrow> (Inl e, console_error ''Error setting up RAG system:'' e w1)
      | (Inr documents, w1) \<Rightarrow>
          (case createVectorStore sv documents w1 of
             (Inl e, w2) \<Rightarrow> (Inl e, console_error ''Error setting up RAG system:'' e w2)
           | (Inr _, w2) \<Rightarrow>
               (Inr (), console_log ''RAG system is ready to use!'' (createRagPipeline w2))))"

definition run_install ::
  "('v, 'x) services \<Rightarrow> filesystem \<Rightarrow> ('v, 'x) world \<Rightarrow> ('v, 'x) world" where
  "run_install sv fs w =
     (case setupRag_install sv fs w of
        (Inl e, w') \<Rightarrow> console_log (error_text e) w'
      | (Inr _, w') \<Rightarrow> w')"

section \<open>The specification's words\<close>


text \<open>
  The input limit of the language model is no constant of the source; a context exceeds
  a limit of \<open>limit\<close> characters when it is longer.
\<close>

definition exceeds_input_limit :: "nat \<Rightarrow> string \<Rightarrow> bool" where
  "exceeds_input_limit limit ctx = (limit < length ctx)"

section \<open>Fixed services, worlds and files for examples\<close>

text \<open>
  Services that answer without a network: the splitter returns the documents as they
  are, the store appends one numbered entry per document, the retriever returns the first
  \<open>k\<close> of a fixed list of documents, the model returns a fixed answer.
\<close>

definition fixed_services :: "document list \<Rightarrow> string \<Rightarrow> (nat, unit) services" where
  "fixed_services docs answer =
     \<lparr>splitDocuments = (\<lambda>size overlap ds. Inr ds),
      fromDocuments = (\<lambda>ds c x.
         (None,
          c @ map (\<lambda>(i, d). \<lparr>entry_id = show_nat i, embedding = 0,
                               entry_text = pageContent d, entry_metadata = metadata d\<rparr>)
                  (zip [length c ..< length c + length ds] ds),
          x)),
      fromExistingCollection = (\<lambda>c x. (None, x)),
      retrieverInvoke = (\<lambda>k q c x. (Inr (take k docs), x)),
      ollamaInvoke = (\<lambda>prompt x. (Inr answer, x))\<rparr>"

definition empty_world :: "(nat, unit) world" where
  "empty_world = \<lparr>collection = [], console = [], ext = ()\<rparr>"

definition example_docs :: "document list" where
  "example_docs =
     [\<lparr>pageContent = ''Alice'',
       metadata = [(''source'', ''a.md''), (''filePath'', ''book/a.md'')]\<rparr>,
      \<lparr>pageContent = ''Cat'',
       metadata = [(''source'', ''b.md''), (''filePath'', ''book/b.md'')]\<rparr>]"

text \<open>A book directory with two markdown files and one other file.\<close>

definition example_fs :: filesystem where
  "example_fs =
     \<lparr>readdirSync =
        (\<lambda>d. if d = ''./book'' then Some [''a.md'', ''notes.txt'', ''b.md''] else None),
      readFileSync =
        (\<lambda>p. if p = ''book/a.md'' then Some ''Alice''
              else if p = ''book/b.md'' then Some ''Cat'' else None)\<rparr>"

text \<open>A book directory where one entry named like a markdown file is a directory.\<close>

definition fs_with_dir :: filesystem where
  "fs_with_dir =
     \<lparr>readdirSync = (\<lambda>d. if d = ''./book'' then Some [''a.md'', ''dir.md''] else None),
      readFileSync = (\<lambda>p. if p = ''book/a.md'' then Some ''Alice'' else None)\<rparr>"

section \<open>The prompt assembler\<close>



lemma console_log_frame [simp]:
  "collection (console_log l w) = collection w" "ext (console_log l w) = ext w"
  by (simp_all add: console_log_def)

text \<open>When the retriever returns, the first step of the chain returns the two slots.\<close>

lemma chain_slots_ok:
  assumes "retrieverInvoke sv RETRIEVER_K q (collection w) (ext w) = (Inr docs, x)"
  shows "chain_slots sv q w =
           (Inr \<lparr>context_slot = formatDocs docs, question_slot = q\<rparr>,
            console_log (''Retrieved '' @ show_nat (length docs) @ '' documents'')
              ((console_log (''Retrieving documents for question: '' @ q) w)\<lparr>ext := x\<rparr>))"
  using assms by (simp add: chain_slots_def context_fn_def Let_def)

text \<open>The chain then calls the language model on the rendered prompt.\<close>

lemma ragChain_ok:
  assumes "retrieverInvoke sv RETRIEVER_K q (collection w) (ext w) = (Inr docs, x)"
  shows "fst (ragChain_invoke sv q w) =
           fst (ollamaInvoke sv
                  (promptTemplate \<lparr>context_slot = formatDocs docs, question_slot = q\<rparr>) x)"
  by (simp add: ragChain_invoke_def chain_slots_ok [OF assms] split: prod.splits sum.splits)

lemma length_promptTemplate: "length (context_slot s) \<le> length (promptTemplate s)"
  by (simp add: promptTemplate_def)

lemma example_retrieval:
  "retrieverInvoke (fixed_services example_docs ''ok'') RETRIEVER_K ''Who?''
     (collection empty_world) (ext empty_world) = (Inr example_docs, ())"
  by (simp add: fixed_services_def example_docs_def RETRIEVER_K_def)

lemma formatDocs_example:
  "formatDocs example_docs =
     ''Source: a.md'' @ [nl] @ ''Alice'' @ [nl, nl] @ ''Source: b.md'' @ [nl] @ ''Cat''"
  by (simp add: formatDocs_def formattedDoc_def example_docs_def template_prop_def)


lemma example_exceeds: "exceeds_input_limit 8 (formatDocs example_docs)"
  by (simp add: exceeds_input_limit_def formatDocs_example)



text \<open>
  Claim C6, as stated, fails: the assembler has no size check. With a limit of 8
  characters the context of the two example chunks is too large, and the chain still
  returns the whole context and the model's answer, no error.
\<close>

theorem oversized_context_not_rejected:
  "exceeds_input_limit 8 (formatDocs example_docs)
   \<and> fst (chain_slots (fixed_services example_docs ''ok'') ''Who?'' empty_world) =
       Inr \<lparr>context_slot =
              ''Source: a.md'' @ [nl] @ ''Alice'' @ [nl, nl] @ ''Source: b.md'' @ [nl] @ ''Cat'',
            question_slot = ''Who?''\<rparr>
   \<and> fst (ragChain_invoke (fixed_services example_docs ''ok'') ''Who?'' empty_world) = Inr ''ok''"
proof -
  have o: "ollamaInvoke (fixed_services example_docs ''ok'') p () = (Inr ''ok'', ())" for p
    by (simp add: fixed_services_def)
  have s: "fst (chain_slots (fixed_services example_docs ''ok'') ''Who?'' empty_world)
             = Inr \<lparr>context_slot = formatDocs example_docs, question_slot = ''Who?''\<rparr>"
    using chain_slots_ok [OF example_retrieval] by simp
  have a: "fst (ragChain_invoke (fixed_services example_docs ''ok'') ''Who?'' empty_world)
             = Inr ''ok''"
    using ragChain_ok [OF example_retrieval] by (simp add: o)
  show ?thesis
    using example_exceeds s a by (simp add: formatDocs_example)
qed

text \<open>
  Claim C6, amended. For every query whose retrieved context exceeds the input limit,
  the assembler does not fail: the context slot is the whole formatted context, neither
  truncated nor reordered, and the language model is called on the rendered prompt, which
  is itself over the limit.
\<close>

theorem oversized_context_passed_whole:
  assumes "retrieverInvoke sv RETRIEVER_K q (collection w) (ext w) = (Inr docs, x)"
      and "exceeds_input_limit limit (formatDocs docs)"
  shows "fst (chain_slots sv q w) =
           Inr \<lparr>context_slot = formatDocs docs, question_slot = q\<rparr>
       \<and> fst (ragChain_invoke sv q w) =
           fst (ollamaInvoke sv
                  (promptTemplate \<lparr>context_slot = formatDocs docs, question_slot = q\<rparr>) x)
       \<and> limit < length (promptTemplate \<lparr>context_slot = formatDocs docs, question_slot = q\<rparr>)"
proof -
  have "limit < length (formatDocs docs)"
    using assms(2) by (simp add: exceeds_input_limit_def)
  moreover have "length (formatDocs docs)
      \<le> length (promptTemplate \<lparr>context_slot = formatDocs docs, question_slot = q\<rparr>)"
    using length_promptTemplate [of "\<lparr>context_slot = formatDocs docs, question_slot = q\<rparr>"]
    by simp
  ultimately show ?thesis
    using chain_slots_ok [OF assms(1)] ragChain_ok [OF assms(1)] by simp
qed

theorem oversized_context_passed_whole_witness:
  "retrieverInvoke (fixed_services example_docs ''ok'') RETRIEVER_K ''Who?''
     (collection empty_world) (ext empty_world) = (Inr example_docs, ())
   \<and> exceeds_input_limit 8 (formatDocs example_docs)
   \<and> fst (chain_slots (fixed_services example_docs ''ok'') ''Who?'' empty_world) =
       Inr \<lparr>context_slot = formatDocs example_docs, question_slot = ''Who?''\<rparr>
   \<and> 8 < length (promptTemplate
                   \<lparr>context_slot = formatDocs example_docs, question_slot = ''Who?''\<rparr>)"
  using oversized_context_passed_whole [OF example_retrieval example_exceeds]
    example_retrieval example_exceeds
  by simp

section \<open>The document loader\<close>

lemma split_slash_no_slash: "CHR ''/'' \<notin> set n \<Longrightarrow> split_slash n = [n]"
  by (induction n) auto

lemma endsWith_md_long: "endsWith ''.md'' n \<Longrightarrow> 3 \<le> length n"
  by (simp add: endsWith_def)

lemma path_join_book:
  assumes "CHR ''/'' \<notin> set n" and "3 \<le> length n"
  shows "path_join MARKDOWN_DIR n = ''book/'' @ n"
proof -
  from assms(2) have ne: "n \<noteq> []" "n \<noteq> ''.''" "n \<noteq> ''..''" by auto
  have seg: "split_slash (''./book/'' @ n) = [''.'', ''book'', n]"
    using assms(1) by (simp add: split_slash_no_slash)
  have norm: "normalize_segments True [] [''.'', ''book'', n] = [''book'', n]"
    using ne by simp
  have last: "last (''./book/'' @ n) \<noteq> CHR ''/''"
    using assms(1) ne(1) by (metis last_appendR last_in_set)
  have joined: "js_join ''/'' [''book'', n] = ''book/'' @ n" by simp
  show ?thesis
    using ne last
    by (simp add: path_join_def MARKDOWN_DIR_def path_normalize_def Let_def
          seg [simplified] norm joined [simplified])
qed

lemma path_basename_book:
  assumes "CHR ''/'' \<notin> set n" and "n \<noteq> []"
  shows "path_basename (''book/'' @ n) = n"
proof -
  have r: "rev (''book/'' @ n) = rev n @ ''/koob''" by simp
  from assms have "hd (rev n) \<noteq> CHR ''/''"
    by (metis hd_rev last_in_set)
  with assms(2) have d: "dropWhile (\<lambda>c. c = CHR ''/'') (rev n @ ''/koob'') = rev n @ ''/koob''"
    by (cases "rev n") auto
  have t: "takeWhile (\<lambda>c. c \<noteq> CHR ''/'') (rev n @ ''/koob'') = rev n"
    using assms(1) by (subst takeWhile_append2) auto
  show ?thesis
    unfolding path_basename_def r d t by simp
qed

lemma read_files_all_or_nothing:
  assumes "\<forall>n\<in>set ns. CHR ''/'' \<notin> set n \<and> 3 \<le> length n"
  shows "read_files fs (map (path_join MARKDOWN_DIR) ns) =
     (if \<forall>n\<in>set ns. readFileSync fs (''book/'' @ n) \<noteq> None
      then Inr (map (\<lambda>n. \<lparr>pageContent = the (readFileSync fs (''book/'' @ n)),
                           metadata = [(''source'', n), (''filePath'', ''book/'' @ n)]\<rparr>) ns)
      else Inl (FsError (''book/'' @
                  hd (filter (\<lambda>n. readFileSync fs (''book/'' @ n) = None) ns))))"
  using assms
proof (induction ns)
  case Nil
  show ?case by simp
next
  case (Cons n ns)
  from Cons.prems have n: "CHR ''/'' \<notin> set n" "3 \<le> length n" by simp_all
  then have ne: "n \<noteq> []" by auto
  have j: "path_join MARKDOWN_DIR n = ''book/'' @ n" using n by (rule path_join_book)
  have b: "path_basename (''book/'' @ n) = n" using n(1) ne by (rule path_basename_book)
  have IH: "read_files fs (map (path_join MARKDOWN_DIR) ns) =
     (if \<forall>n\<in>set ns. readFileSync fs (''book/'' @ n) \<noteq> None
      then Inr (map (\<lambda>n. \<lparr>pageContent = the (readFileSync fs (''book/'' @ n)),
                           metadata = [(''source'', n), (''filePath'', ''book/'' @ n)]\<rparr>) ns)
      else Inl (FsError (''book/'' @
                  hd (filter (\<lambda>n. readFileSync fs (''book/'' @ n) = None) ns))))"
    using Cons.IH Cons.prems by simp
  show ?case
  proof (cases "readFileSync fs (''book/'' @ n)")
    case None
    then show ?thesis by (simp add: j [simplified])
  next
    case (Some content)
    then show ?thesis
      by (simp add: j [simplified] b [simplified] IH [simplified])
  qed
qed

text \<open>
  Claim C8, amended. The loader is all or nothing. When every directory entry whose name
  ends with \<^verbatim>\<open>.md\<close> can be read, it returns, in the order of the listing, exactly one
  document for each such entry and none for any other entry: the \<^verbatim>\<open>source\<close> is the
  entry's name, the \<^verbatim>\<open>filePath\<close> the directory joined with the name (\<^verbatim>\<open>path.join\<close>
  normalises \<^verbatim>\<open>./book\<close> to \<^verbatim>\<open>book\<close>), the text what the file holds. When some such
  entry cannot be read, it throws the error of the first one and returns no document.
  Entry names of a directory contain no slash.
\<close>

theorem loadDocuments_all_or_nothing:
  assumes "readdirSync fs MARKDOWN_DIR = Some names"
      and "\<forall>n\<in>set names. CHR ''/'' \<notin> set n"
  shows "loadDocuments fs =
     (if \<forall>n\<in>set (filter (endsWith ''.md'') names). readFileSync fs (''book/'' @ n) \<noteq> None
      then Inr (map (\<lambda>n. \<lparr>pageContent = the (readFileSync fs (''book/'' @ n)),
                           metadata = [(''source'', n), (''filePath'', ''book/'' @ n)]\<rparr>)
                    (filter (endsWith ''.md'') names))
      else Inl (FsError (''book/'' @
                  hd (filter (\<lambda>n. readFileSync fs (''book/'' @ n) = None)
                        (filter (endsWith ''.md'') names)))))"
proof -
  have "\<forall>n\<in>set (filter (endsWith ''.md'') names). CHR ''/'' \<notin> set n \<and> 3 \<le> length n"
    using assms(2) by (auto dest: endsWith_md_long)
  then have "read_files fs (map (path_join MARKDOWN_DIR) (filter (endsWith ''.md'') names)) =
     (if \<forall>n\<in>set (filter (endsWith ''.md'') names). readFileSync fs (''book/'' @ n) \<noteq> None
      then Inr (map (\<lambda>n. \<lparr>pageContent = the (readFileSync fs (''book/'' @ n)),
                           metadata = [(''source'', n), (''filePath'', ''book/'' @ n)]\<rparr>)
                    (filter (endsWith ''.md'') names))
      else Inl (FsError (''book/'' @
                  hd (filter (\<lambda>n. readFileSync fs (''book/'' @ n) = None)
                        (filter (endsWith ''.md'') names)))))"
    by (rule read_files_all_or_nothing)
  then show ?thesis
    using assms(1) by (simp only: loadDocuments_def option.case)
qed

lemma example_listing:
  "readdirSync example_fs MARKDOWN_DIR = Some [''a.md'', ''notes.txt'', ''b.md'']"
  by (simp add: example_fs_def MARKDOWN_DIR_def)

lemma dir_listing:
  "readdirSync fs_with_dir MARKDOWN_DIR = Some [''a.md'', ''dir.md'']"
  by (simp add: fs_with_dir_def MARKDOWN_DIR_def)

text \<open>
  Claim C8, as stated, fails: \<^verbatim>\<open>a.md\<close> passes the filter and can be read, but the
  directory \<^verbatim>\<open>dir.md\<close> beside it cannot, and the loader produces no document at all.
\<close>

theorem loader_unreadable_entry_no_document:
  "readdirSync fs_with_dir MARKDOWN_DIR = Some [''a.md'', ''dir.md'']
   \<and> endsWith ''.md'' ''a.md''
   \<and> readFileSync fs_with_dir ''book/a.md'' = Some ''Alice''
   \<and> loadDocuments fs_with_dir = Inl (FsError ''book/dir.md'')"
  by code_simp

text \<open>Both branches: the two readable files, and the directory among the entries.\<close>

theorem loadDocuments_all_or_nothing_witness:
  "readdirSync example_fs MARKDOWN_DIR = Some [''a.md'', ''notes.txt'', ''b.md'']
   \<and> CHR ''/'' \<notin> set ''a.md'' \<and> CHR ''/'' \<notin> set ''notes.txt'' \<and> CHR ''/'' \<notin> set ''b.md''
   \<and> loadDocuments example_fs =
       Inr [\<lparr>pageContent = ''Alice'',
             metadata = [(''source'', ''a.md''), (''filePath'', ''book/a.md'')]\<rparr>,
            \<lparr>pageContent = ''Cat'',
             metadata = [(''source'', ''b.md''), (''filePath'', ''book/b.md'')]\<rparr>]
   \<and> readdirSync fs_with_dir MARKDOWN_DIR = Some [''a.md'', ''dir.md'']
   \<and> CHR ''/'' \<notin> set ''dir.md''
   \<and> loadDocuments fs_with_dir = Inl (FsError ''book/dir.md'')"
proof -
  have names: "\<forall>n\<in>set [''a.md'', ''notes.txt'', ''b.md'']. CHR ''/'' \<notin> set n"
    by simp
  have md: "filter (endsWith ''.md'') [''a.md'', ''notes.txt'', ''b.md''] = [''a.md'', ''b.md'']"
    by (simp add: endsWith_def)
  have ok: "loadDocuments example_fs =
       Inr [\<lparr>pageContent = ''Alice'',
             metadata = [(''source'', ''a.md''), (''filePath'', ''book/a.md'')]\<rparr>,
            \<lparr>pageContent = ''Cat'',
             metadata = [(''source'', ''b.md''), (''filePath'', ''book/b.md'')]\<rparr>]"
    using loadDocuments_all_or_nothing [OF example_listing names]
    unfolding md by (simp add: example_fs_def)
  have names': "\<forall>n\<in>set [''a.md'', ''dir.md'']. CHR ''/'' \<notin> set n"
    by simp
  have md': "filter (endsWith ''.md'') [''a.md'', ''dir.md''] = [''a.md'', ''dir.md'']"
    by (simp add: endsWith_def)
  have bad: "loadDocuments fs_with_dir = Inl (FsError ''book/dir.md'')"
    using loadDocuments_all_or_nothing [OF dir_listing names']
    unfolding md' by (simp add: fs_with_dir_def)
  from example_listing dir_listing ok bad show ?thesis
    by simp
qed

end
